theory Spec2Isabelle
  imports Main
begin

section \<open>Values, settings and the clock\<close>

text \<open>
  The bot of \<^verbatim>\<open>main.py\<close> keeps its configuration in the dictionary
  \<^verbatim>\<open>self.settings\<close>, which it fills from a JSON file and writes back after every
  command. The dictionary is a finite map from key strings to the values the commands store:
  \<^verbatim>\<open>None\<close>, a bool, an int, a string, or the list of special windows, each of them a
  dictionary with the keys \<^verbatim>\<open>start\<close>, \<^verbatim>\<open>end\<close> and \<^verbatim>\<open>interval\<close>
  (the converters of the \<^verbatim>\<open>addwindow\<close> command give them the types str, str and int).
  Strings are ASCII.
\<close>

record window =
  w_start :: string
  w_end :: string
  w_interval :: int

datatype val = VNone | VBool bool | VInt int | VStr string | VWindows "window list"

type_synonym settings_dict = "string \<rightharpoonup> val"

text \<open>Python's truth value of an object, as \<^verbatim>\<open>if not x\<close> and \<^verbatim>\<open>if x\<close> read it.\<close>

fun truthy :: "val option \<Rightarrow> bool" where
  "truthy None = False"
| "truthy (Some VNone) = False"
| "truthy (Some (VBool b)) = b"
| "truthy (Some (VInt i)) = (i \<noteq> 0)"
| "truthy (Some (VStr s)) = (s \<noteq> [])"
| "truthy (Some (VWindows ws)) = (ws \<noteq> [])"

text \<open>
  \<^verbatim>\<open>dict.get(key)\<close> gives \<^verbatim>\<open>None\<close> for a missing key, so a missing key and a
  stored \<^verbatim>\<open>None\<close> read alike; \<^verbatim>\<open>dict.get(key, default)\<close> gives the default for a
  missing key only.
\<close>

definition dict_get :: "settings_dict \<Rightarrow> string \<Rightarrow> val" where
  "dict_get d k = (case d k of None \<Rightarrow> VNone | Some v \<Rightarrow> v)"

definition dict_get_default :: "settings_dict \<Rightarrow> string \<Rightarrow> val \<Rightarrow> val" where
  "dict_get_default d k dflt = (case d k of None \<Rightarrow> dflt | Some v \<Rightarrow> v)"

datatype err =
    RuntimeError
  | FileNotFoundError
  | ValueError
  | ZeroDivisionError
  | TypeError
  | AttributeError
  | DeliveryError

text \<open>
  \<^verbatim>\<open>datetime.now()\<close> is a naive timestamp; \<^verbatim>\<open>.time()\<close> drops the date. Two
  \<^verbatim>\<open>datetime.time\<close> objects compare as the tuples (hour, minute, second, microsecond).
\<close>

record tod =
  t_hour :: nat
  t_minute :: nat
  t_second :: nat
  t_microsecond :: nat

record datetime =
  year :: nat
  month :: nat
  day :: nat
  hour :: nat
  minute :: nat
  second :: nat
  microsecond :: nat

definition time_of :: "datetime \<Rightarrow> tod" where
  "time_of d = \<lparr>t_hour = hour d, t_minute = minute d, t_second = second d,
                t_microsecond = microsecond d\<rparr>"

definition time_le :: "tod \<Rightarrow> tod \<Rightarrow> bool" where
  "time_le a b =
     (t_hour a < t_hour b \<or>
      (t_hour a = t_hour b \<and>
       (t_minute a < t_minute b \<or>
        (t_minute a = t_minute b \<and>
         (t_second a < t_second b \<or>
          (t_second a = t_second b \<and> t_microsecond a \<le> t_microsecond b))))))"

definition time_lt :: "tod \<Rightarrow> tod \<Rightarrow> bool" where
  "time_lt a b = (time_le a b \<and> a \<noteq> b)"

subsection \<open>Parsing and printing times\<close>

text \<open>
  \<^verbatim>\<open>datetime.strptime(s, "%H:%M")\<close> accepts an hour of one digit or of two digits up to 23,
  a colon, and a minute of one digit or of two digits up to 59, and nothing after them; any
  other string raises ValueError. The parsed time has second and microsecond 0.
\<close>

definition is_digit :: "char \<Rightarrow> bool" where
  "is_digit c = (c \<in> set ''0123456789'')"

definition digit_val :: "char \<Rightarrow> nat" where
  "digit_val c = of_char c - 48"

fun digits_val :: "string \<Rightarrow> nat option" where
  "digits_val [a] = (if is_digit a then Some (digit_val a) else None)"
| "digits_val [a, b] =
     (if is_digit a \<and> is_digit b then Some (10 * digit_val a + digit_val b) else None)"
| "digits_val _ = None"

definition strptime_HM :: "string \<Rightarrow> err + tod" where
  "strptime_HM s =
     (let h = takeWhile (\<lambda>c. c \<noteq> CHR '':'') s;
          r = dropWhile (\<lambda>c. c \<noteq> CHR '':'') s
      in case r of
           [] \<Rightarrow> Inl ValueError
         | _ # m \<Rightarrow>
             (case digits_val h of
                None \<Rightarrow> Inl ValueError
              | Some hh \<Rightarrow>
                  (case digits_val m of
                     None \<Rightarrow> Inl ValueError
                   | Some mm \<Rightarrow>
                       if hh \<le> 23 \<and> mm \<le> 59
                       then Inr \<lparr>t_hour = hh, t_minute = mm, t_second = 0, t_microsecond = 0\<rparr>
                       else Inl ValueError)))"

definition digit_char :: "nat \<Rightarrow> char" where
  "digit_char n = ''0123456789'' ! (n mod 10)"

function str_nat :: "nat \<Rightarrow> string" where
  "str_nat n = (if n < 10 then [digit_char n] else str_nat (n div 10) @ [digit_char n])"
  by pat_completeness auto
termination
  by (relation "measure id") auto

declare str_nat.simps [simp del]

definition str_int :: "int \<Rightarrow> string" where
  "str_int i = (if i < 0 then CHR ''-'' # str_nat (nat (- i)) else str_nat (nat i))"

definition pad2 :: "nat \<Rightarrow> string" where
  "pad2 n = (if n < 10 then CHR ''0'' # str_nat n else str_nat n)"

text \<open>\<^verbatim>\<open>strftime("%Y-%m-%d_%H-%M-%S")\<close>, for a year of four digits.\<close>

definition strftime_stamp :: "datetime \<Rightarrow> string" where
  "strftime_stamp d =
     str_nat (year d) @ ''-'' @ pad2 (month d) @ ''-'' @ pad2 (day d) @ ''_'' @
     pad2 (hour d) @ ''-'' @ pad2 (minute d) @ ''-'' @ pad2 (second d)"

section \<open>The bot, the world around it and the settings store\<close>

text \<open>
  A guild is the list of its text channels. \<^verbatim>\<open>discord.utils.get(channels, name=n)\<close>
  gives the first channel whose name equals \<^verbatim>\<open>n\<close>, or \<^verbatim>\<open>None\<close>; a name that is
  no string equals no channel name.
\<close>

record channel =
  chan_id :: nat
  chan_name :: string

type_synonym guild = "channel list"

definition utils_get :: "channel list \<Rightarrow> val \<Rightarrow> channel option" where
  "utils_get chans n = find (\<lambda>c. VStr (chan_name c) = n) chans"

record bot =
  settings :: settings_dict
  guilds :: "guild list"

text \<open>
  What the bot does to the outside is recorded in a trace: a photo written by the camera
  command, a file sent to a channel, a file removed.

  The settings file holds a JSON document, holds something that is no JSON, or is missing.
  \<^verbatim>\<open>json.dump\<close> followed by \<^verbatim>\<open>json.load\<close> gives back the same dictionary for
  the values above, so the file is modelled by the dictionary it holds; writing it is taken
  to succeed.

  The camera command and the chat service are outside the program: \<^verbatim>\<open>camera\<close> gives
  the exit code of \<^verbatim>\<open>os.system\<close> for a command line (the output file exists when it
  is 0), \<^verbatim>\<open>transport\<close> says whether \<^verbatim>\<open>channel.send\<close> of a file returns or raises.
  The clock does not move within one tick.
\<close>

datatype event = Captured string | Sent channel string | Removed string

datatype file_content = Missing | Corrupt | Json settings_dict

record world =
  clock :: datetime
  files :: "string set"
  settings_file :: file_content
  camera :: "string \<Rightarrow> int"
  transport :: "channel \<Rightarrow> string \<Rightarrow> bool"
  events :: "event list"

definition default_settings :: settings_dict where
  "default_settings =
     [''channel_name'' \<mapsto> VNone,
      ''interval_minutes'' \<mapsto> VInt 5,
      ''delete_after_upload'' \<mapsto> VBool False,
      ''special_windows'' \<mapsto> VWindows []]"

definition load_settings :: "bot \<Rightarrow> world \<Rightarrow> bot" where
  "load_settings b w =
     (case settings_file w of
        Json d \<Rightarrow> b\<lparr>settings := d\<rparr>
      | _ \<Rightarrow> b\<lparr>settings := default_settings\<rparr>)"

text \<open>
  \<^verbatim>\<open>save_settings(**kwargs)\<close>: the keyword arguments in their order, those that are not
  \<^verbatim>\<open>None\<close> written into the dictionary, the whole dictionary written to the file.
\<close>

definition dict_update :: "settings_dict \<Rightarrow> (string \<times> val) list \<Rightarrow> settings_dict" where
  "dict_update d kvs = fold (\<lambda>(k, v) m. m(k \<mapsto> v)) kvs d"

definition save_settings :: "(string \<times> val) list \<Rightarrow> bot \<times> world \<Rightarrow> bot \<times> world" where
  "save_settings kwargs bw =
     (let b = fst bw; w = snd bw;
          d = dict_update (settings b) (filter (\<lambda>(k, v). v \<noteq> VNone) kwargs)
      in (b\<lparr>settings := d\<rparr>, w\<lparr>settings_file := Json d\<rparr>))"

section \<open>Camera and upload\<close>

definition take_photo :: "string \<Rightarrow> nat \<Rightarrow> nat \<Rightarrow> world \<Rightarrow> (err + string) \<times> world" where
  "take_photo prefix width height w =
     (let timestamp = strftime_stamp (clock w);
          filename = prefix @ ''_'' @ timestamp @ ''.jpg'';
          cmd = ''libcamera-still -o '' @ filename @ '' --width '' @ str_nat width @
                '' --height '' @ str_nat height @ '' -n'';
          exit_code = camera w cmd
      in if exit_code \<noteq> 0 then (Inl RuntimeError, w)
         else (Inr filename,
               w\<lparr>files := insert filename (files w),
                 events := events w @ [Captured filename]\<rparr>))"

definition upload_photo :: "bot \<Rightarrow> channel \<Rightarrow> string \<Rightarrow> world \<Rightarrow> (err + unit) \<times> world" where
  "upload_photo b ch filename w =
     (if filename \<notin> files w then (Inl FileNotFoundError, w)
      else if \<not> transport w ch filename then (Inl DeliveryError, w)
      else
        (let w1 = w\<lparr>events := events w @ [Sent ch filename]\<rparr>
         in if truthy (settings b ''delete_after_upload'')
            then (Inr (), w1\<lparr>files := files w1 - {filename},
                              events := events w1 @ [Removed filename]\<rparr>)
            else (Inr (), w1)))"

text \<open>
  The two lines that both branches of the loop share: take a photo with the given prefix and
  upload it to the channel; an exception of the first skips the second.
\<close>

definition capture_and_upload :: "string \<Rightarrow> bot \<Rightarrow> channel \<Rightarrow> world \<Rightarrow> (err + unit) \<times> world" where
  "capture_and_upload prefix b ch w =
     (case take_photo prefix 640 480 w of
        (Inl e, w1) \<Rightarrow> (Inl e, w1)
      | (Inr filename, w1) \<Rightarrow> upload_photo b ch filename w1)"

section \<open>The photo loop\<close>

text \<open>
  The values the loop reads from the settings. Iterating \<^verbatim>\<open>special_windows\<close> and
  computing \<^verbatim>\<open>now.minute % interval_minutes\<close> raise TypeError on a value of another
  type; a bool counts as the int 0 or 1, and the empty string iterates like the empty list.
\<close>

definition get_windows :: "settings_dict \<Rightarrow> err + window list" where
  "get_windows d =
     (case dict_get_default d ''special_windows'' (VWindows []) of
        VWindows ws \<Rightarrow> Inr ws
      | VStr s \<Rightarrow> (if s = [] then Inr [] else Inl TypeError)
      | _ \<Rightarrow> Inl TypeError)"

definition get_interval_minutes :: "settings_dict \<Rightarrow> err + int" where
  "get_interval_minutes d =
     (case dict_get_default d ''interval_minutes'' (VInt 5) of
        VInt n \<Rightarrow> Inr n
      | VBool x \<Rightarrow> Inr (if x then 1 else 0)
      | _ \<Rightarrow> Inl TypeError)"

text \<open>
  Lines 73 to 77: both bounds of the window are parsed, then compared with the time of day,
  bounds included.
\<close>

definition in_window :: "window \<Rightarrow> datetime \<Rightarrow> err + bool" where
  "in_window win now =
     (case strptime_HM (w_start win) of
        Inl e \<Rightarrow> Inl e
      | Inr s \<Rightarrow>
          (case strptime_HM (w_end win) of
             Inl e \<Rightarrow> Inl e
           | Inr e \<Rightarrow> Inr (time_le s (time_of now) \<and> time_le (time_of now) e)))"

text \<open>
  The loop over the special windows. The result \<^verbatim>\<open>Inr True\<close> says that the function
  returned from inside the loop, \<^verbatim>\<open>Inr False\<close> that the loop ran to its end.
\<close>

fun special_window_loop ::
  "bot \<Rightarrow> channel \<Rightarrow> datetime \<Rightarrow> window list \<Rightarrow> world \<Rightarrow> (err + bool) \<times> world" where
  "special_window_loop b ch now [] w = (Inr False, w)"
| "special_window_loop b ch now (win # wins) w =
     (case in_window win now of
        Inl e \<Rightarrow> (Inl e, w)
      | Inr inside \<Rightarrow>
          if inside then
            (if w_interval win = 0 then (Inl ZeroDivisionError, w)
             else if int (second now) mod w_interval win = 0 then
               (case capture_and_upload ''special'' b ch w of
                  (Inl e, w1) \<Rightarrow> (Inl e, w1)
                | (Inr u, w1) \<Rightarrow> (Inr True, w1))
             else (Inr True, w))
          else special_window_loop b ch now wins w)"

text \<open>
  The normal interval check of lines 84 to 86; the modulo is computed before the second is
  looked at.
\<close>

definition normal_interval_check ::
  "bot \<Rightarrow> channel \<Rightarrow> datetime \<Rightarrow> world \<Rightarrow> (err + unit) \<times> world" where
  "normal_interval_check b ch now w =
     (case get_interval_minutes (settings b) of
        Inl e \<Rightarrow> (Inl e, w)
      | Inr n \<Rightarrow>
          if n = 0 then (Inl ZeroDivisionError, w)
          else if int (minute now) mod n = 0 \<and> second now = 0
               then capture_and_upload ''interval'' b ch w
               else (Inr (), w))"

text \<open>The loop over the guilds, lines 66 to 86.\<close>

fun guild_loop :: "bot \<Rightarrow> val \<Rightarrow> datetime \<Rightarrow> guild list \<Rightarrow> world \<Rightarrow> (err + unit) \<times> world" where
  "guild_loop b channel_name now [] w = (Inr (), w)"
| "guild_loop b channel_name now (g # gs) w =
     (case utils_get g channel_name of
        None \<Rightarrow> guild_loop b channel_name now gs w
      | Some ch \<Rightarrow>
          (case get_windows (settings b) of
             Inl e \<Rightarrow> (Inl e, w)
           | Inr wins \<Rightarrow>
               (case special_window_loop b ch now wins w of
                  (Inl e, w1) \<Rightarrow> (Inl e, w1)
                | (Inr True, w1) \<Rightarrow> (Inr (), w1)
                | (Inr False, w1) \<Rightarrow>
                    (case normal_interval_check b ch now w1 of
                       (Inl e, w2) \<Rightarrow> (Inl e, w2)
                     | (Inr u, w2) \<Rightarrow> guild_loop b channel_name now gs w2))))"

text \<open>
  One tick, lines 57 to 86. \<^verbatim>\<open>wait_until_ready\<close> only delays the first tick and is
  left out; the settings are those of the bot when the tick starts.
\<close>

definition photo_loop :: "bot \<Rightarrow> world \<Rightarrow> (err + unit) \<times> world" where
  "photo_loop b w =
     (let now = clock w;
          channel_name = dict_get (settings b) ''channel_name''
      in if \<not> truthy (Some channel_name) then (Inr (), w)
         else guild_loop b channel_name now (guilds b) w)"

section \<open>Commands\<close>

text \<open>
  Each command changes the settings through \<^verbatim>\<open>save_settings\<close> and answers with a
  message. \<^verbatim>\<open>addwindow\<close> appends to the list the settings hold; a stored value that is
  no list has no \<^verbatim>\<open>append\<close>.
\<close>

definition set_channel :: "string \<Rightarrow> bot \<times> world \<Rightarrow> (bot \<times> world) \<times> string" where
  "set_channel name bw =
     (save_settings [(''channel_name'', VStr name)] bw, ''Photo channel set to #'' @ name)"

definition set_interval :: "int \<Rightarrow> bot \<times> world \<Rightarrow> (bot \<times> world) \<times> string" where
  "set_interval minutes bw =
     (if minutes < 1 then (bw, ''Interval must be at least 1 minute.'')
      else (save_settings [(''interval_minutes'', VInt minutes)] bw,
            ''Interval set to every '' @ str_int minutes @ '' minutes.''))"

definition add_window ::
  "string \<Rightarrow> string \<Rightarrow> int \<Rightarrow> bot \<times> world \<Rightarrow> err + (bot \<times> world) \<times> string" where
  "add_window start end' interval bw =
     (case dict_get_default (settings (fst bw)) ''special_windows'' (VWindows []) of
        VWindows windows \<Rightarrow>
          Inr (save_settings
                 [(''special_windows'',
                   VWindows (windows @ [\<lparr>w_start = start, w_end = end', w_interval = interval\<rparr>]))]
                 bw,
               ''Special window added: '' @ start @ ''-'' @ end' @ '' every '' @
               str_int interval @ ''s.'')
      | _ \<Rightarrow> Inl AttributeError)"

definition clear_windows :: "bot \<times> world \<Rightarrow> (bot \<times> world) \<times> string" where
  "clear_windows bw =
     (save_settings [(''special_windows'', VWindows [])] bw, ''All special windows cleared.'')"

section \<open>Scenarios\<close>

text \<open>
  Concrete bots and worlds on which the theorems below are instantiated: two guilds with a
  channel named \<^verbatim>\<open>cam\<close>, a camera that works, a chat service that delivers, and
  the bot as \<^verbatim>\<open>__init__\<close> builds it (an empty dictionary, then \<^verbatim>\<open>load_settings\<close>).
\<close>

definition cam :: channel where
  "cam = \<lparr>chan_id = 1, chan_name = ''cam''\<rparr>"

definition cam2 :: channel where
  "cam2 = \<lparr>chan_id = 2, chan_name = ''cam''\<rparr>"

definition at_time :: "nat \<Rightarrow> nat \<Rightarrow> nat \<Rightarrow> datetime" where
  "at_time h m s =
     \<lparr>year = 2025, month = 6, day = 1, hour = h, minute = m, second = s, microsecond = 0\<rparr>"

definition quiet_world :: "datetime \<Rightarrow> world" where
  "quiet_world t =
     \<lparr>clock = t, files = {}, settings_file = Missing, camera = (\<lambda>cmd. 0),
      transport = (\<lambda>ch f. True), events = []\<rparr>"

definition init_bot :: "guild list \<Rightarrow> world \<Rightarrow> bot" where
  "init_bot gs w = load_settings \<lparr>settings = Map.empty, guilds = gs\<rparr> w"

definition window_1630 :: "int \<Rightarrow> window" where
  "window_1630 i = \<lparr>w_start = ''16:30'', w_end = ''16:35'', w_interval = i\<rparr>"

definition night_window :: window where
  "night_window = \<lparr>w_start = ''23:00'', w_end = ''01:00'', w_interval = 30\<rparr>"

definition scenario_settings :: "window list \<Rightarrow> settings_dict" where
  "scenario_settings ws =
     [''channel_name'' \<mapsto> VStr ''cam'',
      ''interval_minutes'' \<mapsto> VInt 5,
      ''delete_after_upload'' \<mapsto> VBool True,
      ''special_windows'' \<mapsto> VWindows ws]"

definition scenario_bot :: "window list \<Rightarrow> guild list \<Rightarrow> bot" where
  "scenario_bot ws gs = \<lparr>settings = scenario_settings ws, guilds = gs\<rparr>"

section \<open>The settings store\<close>

lemmas scenario_defs =
  scenario_bot_def scenario_settings_def quiet_world_def at_time_def cam_def cam2_def
  window_1630_def night_window_def init_bot_def

lemmas eval_defs =
  strptime_HM_def is_digit_def digit_val_def in_window_def time_of_def time_le_def
  utils_get_def capture_and_upload_def take_photo_def upload_photo_def strftime_stamp_def
  pad2_def str_nat.simps digit_char_def Let_def

lemma fold_upd_map_of:
  "fold (\<lambda>kv m. m(fst kv \<mapsto> snd kv)) kvs d = d ++ map_of (rev kvs)"
proof (induction kvs arbitrary: d)
  case Nil
  show ?case by simp
next
  case (Cons kv kvs)
  have "(d(fst kv \<mapsto> snd kv)) ++ map_of (rev kvs) = d ++ map_of (rev (kv # kvs))"
    by (cases kv) (simp add: map_add_def fun_eq_iff split: option.splits)
  moreover have "fold (\<lambda>kv m. m(fst kv \<mapsto> snd kv)) (kv # kvs) d
      = fold (\<lambda>kv m. m(fst kv \<mapsto> snd kv)) kvs (d(fst kv \<mapsto> snd kv))"
    by (simp only: fold.simps comp_apply)
  ultimately show ?case
    using Cons.IH [of "d(fst kv \<mapsto> snd kv)"] by (simp only:)
qed

lemma dict_update_map_of: "dict_update d kvs = d ++ map_of (rev kvs)"
proof -
  have "(\<lambda>(k, v) m. m(k \<mapsto> v)) = (\<lambda>kv (m :: settings_dict). m(fst kv \<mapsto> snd kv))"
    by (simp add: fun_eq_iff)
  then show ?thesis
    unfolding dict_update_def by (simp only: fold_upd_map_of)
qed

text \<open>
  Claim C9. For every prior configuration and every partial update: after
  \<^verbatim>\<open>save_settings\<close>, a \<^verbatim>\<open>load_settings\<close> by any bot, whatever its own dictionary
  was (the program loads from \<^verbatim>\<open>__init__\<close>, on an empty one), reads from the file the
  prior dictionary overridden by exactly those keyword arguments whose value is not
  \<^verbatim>\<open>None\<close> (the later of two arguments of one name winning): a key the update gives a
  value that is not \<^verbatim>\<open>None\<close> reads that value, every other key reads what it read in
  the saving bot before. The saving bot holds the same dictionary in memory.
\<close>

theorem save_then_load_merges:
  "settings (load_settings b' (snd (save_settings kwargs (b, w))))
     = settings b ++ map_of (rev (filter (\<lambda>(k, v). v \<noteq> VNone) kwargs))
   \<and> settings (fst (save_settings kwargs (b, w)))
     = settings b ++ map_of (rev (filter (\<lambda>(k, v). v \<noteq> VNone) kwargs))
   \<and> guilds (load_settings b' (snd (save_settings kwargs (b, w)))) = guilds b'"
  by (simp add: save_settings_def load_settings_def Let_def dict_update_map_of)

theorem save_then_load_merges_witness:
  "settings (init_bot [[cam]]
      (snd (save_settings [(''interval_minutes'', VInt 7), (''channel_name'', VNone)]
             (\<lparr>settings = [''channel_name'' \<mapsto> VStr ''cam''], guilds = []\<rparr>,
              quiet_world (at_time 10 5 0)))))
   = [''channel_name'' \<mapsto> VStr ''cam'', ''interval_minutes'' \<mapsto> VInt 7]
   \<and> settings (init_bot [[cam]] (quiet_world (at_time 10 5 0))) = default_settings"
  using save_then_load_merges
          [of "\<lparr>settings = Map.empty, guilds = [[cam]]\<rparr>"
              "[(''interval_minutes'', VInt 7), (''channel_name'', VNone)]"
              "\<lparr>settings = [''channel_name'' \<mapsto> VStr ''cam''], guilds = []\<rparr>"
              "quiet_world (at_time 10 5 0)"]
  by (simp add: init_bot_def fun_eq_iff map_add_def load_settings_def quiet_world_def)

section \<open>The tick without a channel\<close>

text \<open>
  Claim C3. When the settings hold no channel name (the key is missing or its value is
  \<^verbatim>\<open>None\<close>), the tick returns at once, for every timestamp and every world: no error,
  and the world as it was, so no photo is taken and nothing is sent.
\<close>

theorem no_channel_no_action:
  assumes "settings b ''channel_name'' = None \<or> settings b ''channel_name'' = Some VNone"
  shows "photo_loop b w = (Inr (), w)"
  using assms by (auto simp: photo_loop_def dict_get_def)

theorem no_channel_no_action_witness:
  "photo_loop (init_bot [[cam]] (quiet_world (at_time 10 5 0))) (quiet_world (at_time 10 5 0))
     = (Inr (), quiet_world (at_time 10 5 0))"
  by (rule no_channel_no_action)
     (simp add: init_bot_def load_settings_def quiet_world_def default_settings_def)

section \<open>Windows\<close>

lemma time_le_trans: "time_le a b \<Longrightarrow> time_le b c \<Longrightarrow> time_le a c"
  unfolding time_le_def by auto

lemma time_le_antisym: "time_le a b \<Longrightarrow> time_le b a \<Longrightarrow> a = (b::tod)"
  unfolding time_le_def by (cases a, cases b) auto

text \<open>
  Claim C8. A window whose start, as a time of day, is strictly later than its end contains
  no time of day: the comparison of lines 73 to 77 is false for every timestamp, and the loop
  over the windows goes on to the next window as if this one were not there.
\<close>

theorem inverted_window_never_matches:
  assumes "strptime_HM (w_start win) = Inr s"
      and "strptime_HM (w_end win) = Inr e"
      and "time_lt e s"
  shows "in_window win now = Inr False
         \<and> special_window_loop b ch now (win # wins) w = special_window_loop b ch now wins w"
proof -
  have "\<not> (time_le s (time_of now) \<and> time_le (time_of now) e)"
  proof
    assume "time_le s (time_of now) \<and> time_le (time_of now) e"
    then have "time_le s e" using time_le_trans by blast
    with assms(3) show False
      unfolding time_lt_def using time_le_antisym by blast
  qed
  then have "in_window win now = Inr False"
    by (simp add: in_window_def assms(1,2))
  then show ?thesis by simp
qed

theorem inverted_window_never_matches_witness:
  "in_window night_window (at_time 23 30 0) = Inr False
   \<and> in_window night_window (at_time 0 30 0) = Inr False
   \<and> special_window_loop (scenario_bot [night_window] [[cam]]) cam (at_time 23 30 0)
        [night_window] (quiet_world (at_time 23 30 0))
      = (Inr False, quiet_world (at_time 23 30 0))"
proof -
  have s: "strptime_HM (w_start night_window)
             = Inr \<lparr>t_hour = 23, t_minute = 0, t_second = 0, t_microsecond = 0\<rparr>"
    by (simp add: eval_defs scenario_defs)
  have e: "strptime_HM (w_end night_window)
             = Inr \<lparr>t_hour = 1, t_minute = 0, t_second = 0, t_microsecond = 0\<rparr>"
    by (simp add: eval_defs scenario_defs)
  have lt: "time_lt \<lparr>t_hour = 1, t_minute = 0, t_second = 0, t_microsecond = 0\<rparr>
                    \<lparr>t_hour = 23, t_minute = 0, t_second = 0, t_microsecond = 0\<rparr>"
    by (simp add: time_lt_def time_le_def)
  note inst = inverted_window_never_matches [OF s e lt]
  from inst [of "at_time 23 30 0" "scenario_bot [night_window] [[cam]]" cam "[]"
                "quiet_world (at_time 23 30 0)"]
       inst [of "at_time 0 30 0" "scenario_bot [night_window] [[cam]]" cam "[]"
                "quiet_world (at_time 0 30 0)"]
  show ?thesis by simp
qed

section \<open>Upload\<close>

text \<open>
  Claim C7. For a photo that is on disk: when the delivery fails, \<^verbatim>\<open>upload_photo\<close>
  raises and leaves the world as it was, so the file is still there; when the delivery
  succeeds and \<^verbatim>\<open>delete_after_upload\<close> is true, the file is gone afterwards and the
  removal is the event after the delivery; when it succeeds and the flag is off, the file
  stays.
\<close>

theorem upload_deletes_only_after_delivery:
  assumes "f \<in> files w"
  shows "(\<not> transport w ch f \<longrightarrow> upload_photo b ch f w = (Inl DeliveryError, w))
       \<and> (transport w ch f \<longrightarrow> truthy (settings b ''delete_after_upload'') \<longrightarrow>
            fst (upload_photo b ch f w) = Inr ()
          \<and> f \<notin> files (snd (upload_photo b ch f w))
          \<and> events (snd (upload_photo b ch f w)) = events w @ [Sent ch f, Removed f])
       \<and> (transport w ch f \<longrightarrow> \<not> truthy (settings b ''delete_after_upload'') \<longrightarrow>
            fst (upload_photo b ch f w) = Inr ()
          \<and> f \<in> files (snd (upload_photo b ch f w))
          \<and> events (snd (upload_photo b ch f w)) = events w @ [Sent ch f])"
  using assms by (simp add: upload_photo_def Let_def)

theorem upload_deletes_only_after_delivery_witness:
  "upload_photo (scenario_bot [] [[cam]]) cam ''p.jpg''
      ((quiet_world (at_time 10 5 0))\<lparr>files := {''p.jpg''}, transport := (\<lambda>ch f. False)\<rparr>)
    = (Inl DeliveryError,
       (quiet_world (at_time 10 5 0))\<lparr>files := {''p.jpg''}, transport := (\<lambda>ch f. False)\<rparr>)
   \<and> fst (upload_photo (scenario_bot [] [[cam]]) cam ''p.jpg''
            ((quiet_world (at_time 10 5 0))\<lparr>files := {''p.jpg''}\<rparr>)) = Inr ()
   \<and> ''p.jpg'' \<notin> files (snd (upload_photo (scenario_bot [] [[cam]]) cam ''p.jpg''
            ((quiet_world (at_time 10 5 0))\<lparr>files := {''p.jpg''}\<rparr>)))
   \<and> events (snd (upload_photo (scenario_bot [] [[cam]]) cam ''p.jpg''
            ((quiet_world (at_time 10 5 0))\<lparr>files := {''p.jpg''}\<rparr>)))
      = [Sent cam ''p.jpg'', Removed ''p.jpg'']"
proof -
  let ?b = "scenario_bot [] [[cam]]"
  let ?down = "(quiet_world (at_time 10 5 0))\<lparr>files := {''p.jpg''}, transport := (\<lambda>ch f. False)\<rparr>"
  let ?up = "(quiet_world (at_time 10 5 0))\<lparr>files := {''p.jpg''}\<rparr>"
  have f1: "''p.jpg'' \<in> files ?down" by simp
  have f2: "''p.jpg'' \<in> files ?up" by simp
  have flag: "truthy (settings ?b ''delete_after_upload'')"
    by (simp add: scenario_defs)
  have up: "transport ?up cam ''p.jpg''" and down: "\<not> transport ?down cam ''p.jpg''"
    by (simp_all add: scenario_defs)
  from upload_deletes_only_after_delivery [OF f1, of cam ?b] down
       upload_deletes_only_after_delivery [OF f2, of cam ?b] up flag
  show ?thesis by (simp add: quiet_world_def)
qed

section \<open>The tick with a channel\<close>

lemma special_window_loop_skip:
  assumes "\<forall>p\<in>set pre. in_window p now = Inr False"
  shows "special_window_loop b ch now (pre @ rest) w = special_window_loop b ch now rest w"
  using assms by (induction pre) simp_all

lemma special_window_loop_none:
  assumes "\<forall>p\<in>set wins. in_window p now = Inr False"
  shows "special_window_loop b ch now wins w = (Inr False, w)"
  using special_window_loop_skip [OF assms, of b ch "[]" w] by simp

lemma guild_loop_skip:
  assumes "\<forall>g\<in>set gpre. utils_get g n = None"
  shows "guild_loop b n now (gpre @ gs) w = guild_loop b n now gs w"
  using assms by (induction gpre) simp_all

lemma guild_loop_unresolved:
  assumes "\<forall>g\<in>set gs. utils_get g n = None"
  shows "guild_loop b n now gs w = (Inr (), w)"
  using guild_loop_skip [OF assms, of b now "[]" w] by simp

lemma take_photo_events:
  "take_photo prefix wd ht w = (r, w1) \<Longrightarrow>
     (case r of Inl e \<Rightarrow> w1 = w | Inr f \<Rightarrow> events w1 = events w @ [Captured f])"
  by (cases "camera w (''libcamera-still -o '' @ (prefix @ ''_'' @ strftime_stamp (clock w) @ ''.jpg'')
               @ '' --width '' @ str_nat wd @ '' --height '' @ str_nat ht @ '' -n'') = 0")
     (auto simp: take_photo_def Let_def)

lemma upload_photo_events:
  "upload_photo b ch f w = (r, w1) \<Longrightarrow> length (events w) \<le> length (events w1)"
  by (auto simp: upload_photo_def Let_def split: if_splits)

lemma capture_and_upload_events:
  assumes "capture_and_upload prefix b ch w = (r, w1)"
  shows "length (events w) \<le> length (events w1) \<and> (r = Inr () \<longrightarrow> length (events w) < length (events w1))"
proof (cases "take_photo prefix 640 480 w")
  case (Pair r0 w0)
  show ?thesis
  proof (cases r0)
    case (Inl e)
    with Pair assms take_photo_events [OF Pair] show ?thesis
      by (auto simp: capture_and_upload_def)
  next
    case (Inr f)
    with Pair assms have up: "upload_photo b ch f w0 = (r, w1)"
      by (simp add: capture_and_upload_def)
    from take_photo_events [OF Pair] Inr have "length (events w0) = Suc (length (events w))"
      by simp
    with upload_photo_events [OF up] show ?thesis by simp
  qed
qed


lemma special_window_loop_events:
  "special_window_loop b ch now wins w = (r, w1) \<Longrightarrow> length (events w) \<le> length (events w1)"
proof (induction wins)
  case Nil
  then show ?case by simp
next
  case (Cons win wins)
  show ?case
  proof (cases "in_window win now")
    case (Inl e)
    with Cons.prems show ?thesis by simp
  next
    case (Inr inside)
    show ?thesis
    proof (cases inside)
      case False
      with Inr Cons show ?thesis by simp
    next
      case True
      obtain r0 w0 where cu: "capture_and_upload ''special'' b ch w = (r0, w0)"
        by (cases "capture_and_upload ''special'' b ch w")
      from capture_and_upload_events [OF cu] have "length (events w) \<le> length (events w0)"
        by simp
      with True Inr Cons.prems cu show ?thesis
        by (cases r0) (auto split: if_splits)
    qed
  qed
qed

lemma normal_interval_check_events:
  "normal_interval_check b ch now w = (r, w1) \<Longrightarrow> length (events w) \<le> length (events w1)"
proof (cases "get_interval_minutes (settings b)")
  case (Inl e)
  assume "normal_interval_check b ch now w = (r, w1)"
  with Inl show ?thesis by (simp add: normal_interval_check_def)
next
  case (Inr n)
  assume a: "normal_interval_check b ch now w = (r, w1)"
  obtain r0 w0 where cu: "capture_and_upload ''interval'' b ch w = (r0, w0)"
    by (cases "capture_and_upload ''interval'' b ch w")
  from capture_and_upload_events [OF cu] have "length (events w) \<le> length (events w0)"
    by simp
  with a Inr cu show ?thesis
    by (auto simp: normal_interval_check_def split: if_splits)
qed


lemma guild_loop_events:
  "guild_loop b n now gs w = (r, w1) \<Longrightarrow> length (events w) \<le> length (events w1)"
proof (induction gs arbitrary: w)
  case Nil
  then show ?case by simp
next
  case (Cons g gs)
  show ?case
  proof (cases "utils_get g n")
    case None
    with Cons show ?thesis by simp
  next
    case (Some ch)
    show ?thesis
    proof (cases "get_windows (settings b)")
      case (Inl e)
      with Some Cons.prems show ?thesis by simp
    next
      case (Inr wins)
      obtain r1 w2 where sw: "special_window_loop b ch now wins w = (r1, w2)"
        by (cases "special_window_loop b ch now wins w")
      note e1 = special_window_loop_events [OF sw]
      show ?thesis
      proof (cases r1)
        case (Inl e)
        with Some Inr sw Cons.prems e1 show ?thesis by simp
      next
        case r1: (Inr ret)
        show ?thesis
        proof (cases ret)
          case True
          with Some Inr sw r1 Cons.prems e1 show ?thesis by simp
        next
          case False
          obtain r2 w3 where nc: "normal_interval_check b ch now w2 = (r2, w3)"
            by (cases "normal_interval_check b ch now w2")
          note e2 = normal_interval_check_events [OF nc]
          show ?thesis
          proof (cases r2)
            case (Inl e)
            with Some Inr sw r1 False nc Cons.prems e1 e2 show ?thesis by simp
          next
            case r2: (Inr u)
            with Some Inr sw r1 False nc Cons.prems
            have "guild_loop b n now gs w3 = (r, w1)" by simp
            from Cons.IH [OF this] e1 e2 show ?thesis by simp
          qed
        qed
      qed
    qed
  qed
qed

text \<open>
  Claim C1. With a channel name set and a guild that has this channel, let \<^verbatim>\<open>win\<close> be the
  earliest declared window that contains the time of day of the tick (the windows before it
  parse and do not contain it) and let its interval be non-zero. Then the whole tick is what
  this window says: one photo with the prefix \<^verbatim>\<open>special\<close>, uploaded to the channel, when
  the second is a multiple of its interval, and nothing at all otherwise. The result does not
  depend on the windows declared after it, on \<^verbatim>\<open>interval_minutes\<close> or on the guilds
  after the first one with the channel: none of them is read.
\<close>

theorem first_matching_window_decides:
  assumes "settings b ''channel_name'' = Some (VStr c)" and "c \<noteq> []"
      and "settings b ''special_windows'' = Some (VWindows (pre @ win # post))"
      and "\<forall>p\<in>set pre. in_window p (clock w) = Inr False"
      and "in_window win (clock w) = Inr True"
      and "w_interval win \<noteq> 0"
      and "guilds b = gpre @ g # gpost"
      and "\<forall>g'\<in>set gpre. utils_get g' (VStr c) = None"
      and "utils_get g (VStr c) = Some ch"
  shows "photo_loop b w =
           (if int (second (clock w)) mod w_interval win = 0
            then capture_and_upload ''special'' b ch w
            else (Inr (), w))"
proof -
  have gw: "get_windows (settings b) = Inr (pre @ win # post)"
    by (simp add: get_windows_def dict_get_default_def assms(3))
  have sw: "special_window_loop b ch (clock w) (pre @ win # post) w =
              special_window_loop b ch (clock w) (win # post) w"
    by (rule special_window_loop_skip [OF assms(4)])
  have "photo_loop b w = guild_loop b (VStr c) (clock w) (g # gpost) w"
    by (simp add: photo_loop_def Let_def dict_get_def assms(1,2,7) guild_loop_skip [OF assms(8)])
  also have "\<dots> = (if int (second (clock w)) mod w_interval win = 0
            then capture_and_upload ''special'' b ch w
            else (Inr (), w))"
    by (simp add: assms(5,6,9) gw sw split: prod.splits sum.splits)
  finally show ?thesis .
qed


theorem first_matching_window_decides_witness:
  "photo_loop (scenario_bot [night_window, window_1630 30, window_1630 7] [[], [cam], [cam2]])
     (quiet_world (at_time 16 32 30))
   = (Inr (), (quiet_world (at_time 16 32 30))
        \<lparr>events := [Captured ''special_2025-06-01_16-32-30.jpg'',
                     Sent cam ''special_2025-06-01_16-32-30.jpg'',
                     Removed ''special_2025-06-01_16-32-30.jpg'']\<rparr>)
   \<and> photo_loop (scenario_bot [night_window, window_1630 30, window_1630 7] [[], [cam], [cam2]])
     (quiet_world (at_time 16 32 15))
   = (Inr (), quiet_world (at_time 16 32 15))"
proof -
  let ?b = "scenario_bot [night_window, window_1630 30, window_1630 7] [[], [cam], [cam2]]"
  have ch: "settings ?b ''channel_name'' = Some (VStr ''cam'')" "''cam'' \<noteq> []"
    by (simp_all add: scenario_defs)
  have ws: "settings ?b ''special_windows'' =
              Some (VWindows ([night_window] @ window_1630 30 # [window_1630 7]))"
    by (simp add: scenario_defs)
  have iv: "w_interval (window_1630 30) \<noteq> 0"
    by (simp add: scenario_defs)
  have gs: "guilds ?b = [[]] @ [cam] # [[cam2]]"
           "\<forall>g'\<in>set [[]]. utils_get g' (VStr ''cam'') = None"
           "utils_get [cam] (VStr ''cam'') = Some cam"
    by (simp_all add: scenario_defs utils_get_def)
  have pre: "\<forall>p\<in>set [night_window]. in_window p (clock (quiet_world (at_time 16 32 s))) = Inr False"
    for s by (simp add: eval_defs scenario_defs)
  have win: "in_window (window_1630 30) (clock (quiet_world (at_time 16 32 s))) = Inr True"
    if "s < 60" for s using that by (simp add: eval_defs scenario_defs)
  have a: "photo_loop ?b (quiet_world (at_time 16 32 30))
      = capture_and_upload ''special'' ?b cam (quiet_world (at_time 16 32 30))"
    using first_matching_window_decides [OF ch ws pre win iv gs, of 30]
    by (simp add: scenario_defs)
  have b: "photo_loop ?b (quiet_world (at_time 16 32 15)) = (Inr (), quiet_world (at_time 16 32 15))"
    using first_matching_window_decides [OF ch ws pre win iv gs, of 15]
    by (simp add: scenario_defs)
  show ?thesis
    unfolding a b by (simp add: eval_defs scenario_defs)
qed

lemma guild_loop_idle:
  assumes "get_windows (settings b) = Inr wins"
      and "\<forall>p\<in>set wins. in_window p now = Inr False"
      and "get_interval_minutes (settings b) = Inr n" and "n \<noteq> 0"
      and "\<not> (int (minute now) mod n = 0 \<and> second now = 0)"
  shows "guild_loop b name now gs w = (Inr (), w)"
proof (induction gs)
  case Nil
  show ?case by simp
next
  case (Cons g gs)
  show ?case
  proof (cases "utils_get g name")
    case None
    with Cons show ?thesis by simp
  next
    case (Some ch)
    have "normal_interval_check b ch now w = (Inr (), w)"
      using assms(3,4,5) by (auto simp: normal_interval_check_def)
    with Some Cons assms(1) special_window_loop_none [OF assms(2), of b ch w]
    show ?thesis by simp
  qed
qed

text \<open>
  Claim C2. With a channel name set, a guild that has this channel, windows that all parse and
  none of which contains the time of day of the tick, and an interval of minutes that is not
  zero: the tick takes a photo with the prefix \<^verbatim>\<open>interval\<close> and uploads it exactly when
  the minute is a multiple of the interval and the second is 0; otherwise it does nothing
  (no error, the world unchanged). Having taken and uploaded the photo for the first guild
  with the channel, the loop goes on with the guilds after it.
\<close>

theorem normal_interval_outside_windows:
  assumes "settings b ''channel_name'' = Some (VStr c)" and "c \<noteq> []"
      and "get_windows (settings b) = Inr wins"
      and "\<forall>p\<in>set wins. in_window p (clock w) = Inr False"
      and "get_interval_minutes (settings b) = Inr n" and "n \<noteq> 0"
      and "guilds b = gpre @ g # gpost"
      and "\<forall>g'\<in>set gpre. utils_get g' (VStr c) = None"
      and "utils_get g (VStr c) = Some ch"
  shows "photo_loop b w =
           (if int (minute (clock w)) mod n = 0 \<and> second (clock w) = 0
            then (case capture_and_upload ''interval'' b ch w of
                    (Inl e, w1) \<Rightarrow> (Inl e, w1)
                  | (Inr u, w1) \<Rightarrow> guild_loop b (VStr c) (clock w) gpost w1)
            else (Inr (), w))
         \<and> ((photo_loop b w = (Inr (), w)) =
              (\<not> (int (minute (clock w)) mod n = 0 \<and> second (clock w) = 0)))"
proof -
  let ?fire = "int (minute (clock w)) mod n = 0 \<and> second (clock w) = 0"
  let ?acted = "case capture_and_upload ''interval'' b ch w of
                    (Inl e, w1) \<Rightarrow> (Inl e, w1)
                  | (Inr u, w1) \<Rightarrow> guild_loop b (VStr c) (clock w) gpost w1"
  have start: "photo_loop b w = guild_loop b (VStr c) (clock w) (g # gpost) w"
    by (simp add: photo_loop_def Let_def dict_get_def assms(1,2,7) guild_loop_skip [OF assms(8)])
  have idle: "photo_loop b w = (Inr (), w)" if "\<not> ?fire"
    unfolding start by (rule guild_loop_idle [OF assms(3,4,5,6) that])
  have fire: "photo_loop b w = ?acted" if "?fire"
    unfolding start using that
    by (simp add: assms(3,5,6,9) special_window_loop_none [OF assms(4)]
                  normal_interval_check_def)
  have differs: "?acted \<noteq> (Inr (), w)"
  proof (cases "capture_and_upload ''interval'' b ch w")
    case (Pair r0 w0)
    show ?thesis
    proof (cases r0)
      case (Inl e)
      with Pair show ?thesis by simp
    next
      case (Inr u)
      with capture_and_upload_events [OF Pair]
      have less: "length (events w) < length (events w0)" by simp
      obtain r1 w1 where gl: "guild_loop b (VStr c) (clock w) gpost w0 = (r1, w1)"
        by (cases "guild_loop b (VStr c) (clock w) gpost w0")
      from guild_loop_events [OF gl] less have "w1 \<noteq> w" by auto
      with Pair Inr gl show ?thesis by simp
    qed
  qed
  from idle fire differs show ?thesis by (cases ?fire) simp_all
qed

theorem normal_interval_outside_windows_witness:
  "photo_loop (scenario_bot [window_1630 30] [[cam]]) (quiet_world (at_time 10 5 0))
   = (Inr (), (quiet_world (at_time 10 5 0))
        \<lparr>events := [Captured ''interval_2025-06-01_10-05-00.jpg'',
                     Sent cam ''interval_2025-06-01_10-05-00.jpg'',
                     Removed ''interval_2025-06-01_10-05-00.jpg'']\<rparr>)
   \<and> photo_loop (scenario_bot [window_1630 30] [[cam]]) (quiet_world (at_time 10 5 30))
   = (Inr (), quiet_world (at_time 10 5 30))
   \<and> photo_loop (scenario_bot [window_1630 30] [[cam]]) (quiet_world (at_time 10 6 0))
   = (Inr (), quiet_world (at_time 10 6 0))"
proof -
  let ?b = "scenario_bot [window_1630 30] [[cam]]"
  have ch: "settings ?b ''channel_name'' = Some (VStr ''cam'')" "''cam'' \<noteq> []"
    by (simp_all add: scenario_defs)
  have ws: "get_windows (settings ?b) = Inr [window_1630 30]"
    by (simp add: scenario_defs get_windows_def dict_get_default_def)
  have im: "get_interval_minutes (settings ?b) = Inr 5" "(5::int) \<noteq> 0"
    by (simp_all add: scenario_defs get_interval_minutes_def dict_get_default_def)
  have gs: "guilds ?b = [] @ [cam] # []"
           "\<forall>g'\<in>set []. utils_get g' (VStr ''cam'') = None"
           "utils_get [cam] (VStr ''cam'') = Some cam"
    by (simp_all add: scenario_defs utils_get_def)
  have none: "\<forall>p\<in>set [window_1630 30]. in_window p (clock (quiet_world (at_time 10 m s))) = Inr False"
    for m s by (simp add: eval_defs scenario_defs)
  note inst = normal_interval_outside_windows [OF ch ws none im gs]
  have a: "photo_loop ?b (quiet_world (at_time 10 5 0))
      = capture_and_upload ''interval'' ?b cam (quiet_world (at_time 10 5 0))"
    using inst [of 5 0] by (simp add: scenario_defs split: prod.splits sum.splits)
  have b: "photo_loop ?b (quiet_world (at_time 10 5 30)) = (Inr (), quiet_world (at_time 10 5 30))"
    using inst [of 5 30] by (simp add: scenario_defs)
  have c: "photo_loop ?b (quiet_world (at_time 10 6 0)) = (Inr (), quiet_world (at_time 10 6 0))"
    using inst [of 6 0] by (simp add: scenario_defs)
  show ?thesis
    unfolding a b c by (simp add: eval_defs scenario_defs)
qed

section \<open>Photos per tick\<close>

text \<open>
  A tick inside a special window ends with the \<^verbatim>\<open>return\<close> of line 81, so it takes one
  photo however many guilds have the channel.
\<close>

lemma special_window_fires_once:
  "photo_loop (scenario_bot [window_1630 30] [[cam], [cam2]]) (quiet_world (at_time 16 32 30))
   = (Inr (), (quiet_world (at_time 16 32 30))
        \<lparr>events := [Captured ''special_2025-06-01_16-32-30.jpg'',
                     Sent cam ''special_2025-06-01_16-32-30.jpg'',
                     Removed ''special_2025-06-01_16-32-30.jpg'']\<rparr>)"
  by (simp add: photo_loop_def dict_get_def get_windows_def get_interval_minutes_def
                dict_get_default_def normal_interval_check_def eval_defs scenario_defs)

text \<open>
  Claim C5. At most one photo and one upload per tick, however many guilds have a channel of
  the configured name. The normal interval branch has no \<^verbatim>\<open>return\<close>: with two guilds
  that both have the channel, one tick at 10:05:00 takes and uploads two photos.
\<close>

theorem normal_interval_fires_once_per_guild:
  "photo_loop (scenario_bot [] [[cam], [cam2]]) (quiet_world (at_time 10 5 0))
   = (Inr (), (quiet_world (at_time 10 5 0))
        \<lparr>events := [Captured ''interval_2025-06-01_10-05-00.jpg'',
                     Sent cam ''interval_2025-06-01_10-05-00.jpg'',
                     Removed ''interval_2025-06-01_10-05-00.jpg'',
                     Captured ''interval_2025-06-01_10-05-00.jpg'',
                     Sent cam2 ''interval_2025-06-01_10-05-00.jpg'',
                     Removed ''interval_2025-06-01_10-05-00.jpg'']\<rparr>)"
  by (simp add: photo_loop_def dict_get_def get_windows_def get_interval_minutes_def
                dict_get_default_def normal_interval_check_def eval_defs scenario_defs)

section \<open>Validation of intervals\<close>

text \<open>\<^verbatim>\<open>setinterval\<close> refuses a number of minutes below 1 and stores nothing.\<close>

lemma set_interval_rejects_below_one:
  "minutes < 1 \<Longrightarrow> set_interval minutes bw = (bw, ''Interval must be at least 1 minute.'')"
  by (simp add: set_interval_def)

lemma set_interval_stores_from_one:
  "1 \<le> minutes \<Longrightarrow>
     settings (fst (fst (set_interval minutes bw))) ''interval_minutes'' = Some (VInt minutes)"
  by (simp add: set_interval_def save_settings_def dict_update_def Let_def)

text \<open>
  Claim C4. Every update that would set an interval below 1 is refused and never stored.
  \<^verbatim>\<open>addwindow\<close> checks nothing: the window with the interval 0 is appended to the
  stored list and written to the settings file.
\<close>

theorem add_window_stores_interval_below_one:
  "\<exists>b w. add_window ''16:30'' ''16:35'' 0
            (init_bot [[cam]] (quiet_world (at_time 10 5 0)), quiet_world (at_time 10 5 0))
          = Inr ((b, w), ''Special window added: 16:30-16:35 every 0s.'')
        \<and> settings b ''special_windows'' = Some (VWindows [window_1630 0])
        \<and> settings_file w = Json (settings b)"
  by (simp add: add_window_def save_settings_def dict_update_def dict_get_default_def
                load_settings_def default_settings_def str_int_def str_nat.simps digit_char_def
                Let_def scenario_defs)

section \<open>Exceptions in the tick\<close>

text \<open>
  A window that contains the time of day and has the interval 0 raises ZeroDivisionError, a
  window whose bounds do not parse raises ValueError as soon as the loop reaches it; in both
  cases the world is as it was.
\<close>

lemma zero_interval_window_raises:
  "in_window win now = Inr True \<Longrightarrow> w_interval win = 0 \<Longrightarrow>
     special_window_loop b ch now (win # wins) w = (Inl ZeroDivisionError, w)"
  by simp

lemma unparsable_window_raises:
  "strptime_HM (w_start win) = Inl e \<or>
     (\<exists>s. strptime_HM (w_start win) = Inr s \<and> strptime_HM (w_end win) = Inl e) \<Longrightarrow>
   special_window_loop b ch now (win # wins) w = (Inl e, w)"
  by (auto simp: in_window_def)

text \<open>
  Conversely, windows whose bounds parse and whose intervals are not zero never make the loop
  over the windows raise one of these; what is left are the failures of camera and upload.
\<close>

lemma capture_and_upload_errors:
  "fst (capture_and_upload prefix b ch w) \<in> {Inr (), Inl RuntimeError, Inl FileNotFoundError, Inl DeliveryError}"
  by (simp add: capture_and_upload_def take_photo_def upload_photo_def Let_def)

lemma well_formed_windows_do_not_raise:
  assumes "\<forall>win\<in>set wins.
             (\<exists>s e. strptime_HM (w_start win) = Inr s \<and> strptime_HM (w_end win) = Inr e)
             \<and> w_interval win \<noteq> 0"
  shows "fst (special_window_loop b ch now wins w)
           \<notin> {Inl ValueError, Inl ZeroDivisionError, Inl TypeError}"
  using assms
proof (induction wins)
  case Nil
  show ?case by simp
next
  case (Cons win wins)
  then obtain s e where p: "strptime_HM (w_start win) = Inr s" "strptime_HM (w_end win) = Inr e"
    and iv: "w_interval win \<noteq> 0"
    by auto
  have iw: "in_window win now = Inr (time_le s (time_of now) \<and> time_le (time_of now) e)"
    by (simp add: in_window_def p)
  show ?case
  proof (cases "time_le s (time_of now) \<and> time_le (time_of now) e")
    case False
    with iw Cons show ?thesis by simp
  next
    case True
    obtain r0 w0 where cu: "capture_and_upload ''special'' b ch w = (r0, w0)"
      by (cases "capture_and_upload ''special'' b ch w")
    with capture_and_upload_errors [of "''special''" b ch w]
    have "r0 \<in> {Inr (), Inl RuntimeError, Inl FileNotFoundError, Inl DeliveryError}" by simp
    with True iw iv cu show ?thesis by auto
  qed
qed

text \<open>
  \<^verbatim>\<open>photo_loop\<close> has no handler: what \<^verbatim>\<open>take_photo\<close> or \<^verbatim>\<open>upload_photo\<close>
  raise leaves the tick as its exception.
\<close>

lemma capture_failure_leaves_tick:
  "photo_loop (scenario_bot [] [[cam]]) ((quiet_world (at_time 10 5 0))\<lparr>camera := (\<lambda>cmd. 1)\<rparr>)
     = (Inl RuntimeError, (quiet_world (at_time 10 5 0))\<lparr>camera := (\<lambda>cmd. 1)\<rparr>)"
  by (simp add: photo_loop_def dict_get_def get_windows_def get_interval_minutes_def
                dict_get_default_def normal_interval_check_def eval_defs scenario_defs)

lemma delivery_failure_leaves_tick:
  "fst (photo_loop (scenario_bot [] [[cam]])
          ((quiet_world (at_time 10 5 0))\<lparr>transport := (\<lambda>ch f. False)\<rparr>)) = Inl DeliveryError
   \<and> files (snd (photo_loop (scenario_bot [] [[cam]])
          ((quiet_world (at_time 10 5 0))\<lparr>transport := (\<lambda>ch f. False)\<rparr>)))
       = {''interval_2025-06-01_10-05-00.jpg''}"
  by (simp add: photo_loop_def dict_get_def get_windows_def get_interval_minutes_def
                dict_get_default_def normal_interval_check_def eval_defs scenario_defs)

text \<open>
  Claim C10. Through \<^verbatim>\<open>addwindow\<close> the settings can come to hold a window that makes
  the tick raise: from the settings of a fresh bot with the channel set, a window with the
  interval 0 gives ZeroDivisionError at a time inside it, and a window whose start or whose
  end is no HH:MM time gives ValueError; each time the world is left as it was, so nothing
  was captured or sent.
\<close>

theorem stored_window_can_raise_in_tick:
  "(\<exists>b w m. add_window ''16:30'' ''16:35'' 0
               (fst (set_channel ''cam''
                  (init_bot [[cam]] (quiet_world (at_time 16 32 0)), quiet_world (at_time 16 32 0))))
             = Inr ((b, w), m)
           \<and> photo_loop b w = (Inl ZeroDivisionError, w))
   \<and> (\<exists>b w m. add_window ''4pm'' ''16:35'' 30
               (fst (set_channel ''cam''
                  (init_bot [[cam]] (quiet_world (at_time 10 5 0)), quiet_world (at_time 10 5 0))))
             = Inr ((b, w), m)
           \<and> photo_loop b w = (Inl ValueError, w))
   \<and> (\<exists>b w m. add_window ''16:30'' ''late'' 30
               (fst (set_channel ''cam''
                  (init_bot [[cam]] (quiet_world (at_time 10 5 0)), quiet_world (at_time 10 5 0))))
             = Inr ((b, w), m)
           \<and> photo_loop b w = (Inl ValueError, w))"
  by (simp add: add_window_def set_channel_def save_settings_def dict_update_def dict_get_default_def
                load_settings_def default_settings_def str_int_def
                photo_loop_def dict_get_def get_windows_def eval_defs scenario_defs)

end
